theory Spec2Isabelle
  imports Main "HOL-Library.Word"
begin

section \<open>Errors\<close>

text \<open>
  A Go \<open>error\<close> result is an \<open>error option\<close>: \<open>None\<close> is the nil error.
  \<open>Errorf\<close> carries the formatted message of \<open>errors.Errorf\<close>, \<open>Wrap\<close> the cause and
  the message of \<open>errors.Wrap\<close>, \<open>Foreign\<close> the text of an error made by a standard
  library call, \<open>json_UnmarshalTypeError\<close> the kind of JSON value that
  \<open>encoding/json\<close> could not store in a Go value.

  Modelled from the spec: \<open>unmarshalErrorMaker\<close> and its method \<open>err\<close> are not among the
  sources. The spec says that a failed parse is reported as "a parse error with a named
  field context"; \<open>UnmarshalError\<close> is that error, and keeps every value that the call
  site hands over: the two fields of the maker (type name and raw input), the cause, the
  field name, the JSON key, the offending text and the message.
\<close>

datatype error =
    Errorf string
  | Wrap error string
  | Foreign string
  | json_UnmarshalTypeError string
  | UnmarshalError string string error string string string string

section \<open>Identifiers\<close>

type_synonym ID = string

text \<open>\<open>ID.Check\<close>: only the empty identifier is refused.\<close>

definition Check :: "ID \<Rightarrow> error option" where
  "Check ident = (if length ident = 0
     then Some (Errorf ''ID invalid: an empty string \"\" is not a valid ID'')
     else None)"

text \<open>
  \<open>typeNames\<close> is a Go \<open>map[string]bool\<close>; indexing it with an absent key yields the
  zero value \<open>false\<close>, which \<open>typeNames_index\<close> writes out.
\<close>

definition typeNames :: "string \<rightharpoonup> bool" where
  "typeNames = map_of
     [(''network'', True),
      (''line'', True),
      (''route'', True),
      (''stop_area'', True),
      (''commercial_mode'', True),
      (''physical_mode'', True),
      (''company'', True),
      (''admin'', True),
      (''stop_point'', True)]"

definition typeNames_index :: "string \<Rightarrow> bool" where
  "typeNames_index k = (case typeNames k of None \<Rightarrow> False | Some b \<Rightarrow> b)"

text \<open>
  \<open>strings.Split(s, sep)\<close> for a separator of one byte, as \<open>Type\<close> calls it with
  \<open>":"\<close>: the pieces of \<open>s\<close> between the occurrences of the separator, in order. The
  result always has one piece more than there are separators, so it is never empty.
  Go strings are byte sequences and so are the strings here.
\<close>

fun Split :: "string \<Rightarrow> char \<Rightarrow> string list" where
  "Split [] sep = [[]]"
| "Split (c # cs) sep =
     (if c = sep then [] # Split cs sep
      else (case Split cs sep of
              [] \<Rightarrow> [[c]]
            | w # ws \<Rightarrow> (c # w) # ws))"

text \<open>\<open>ID.Type\<close>, with the guard on an empty split result that the source has.\<close>

definition Type :: "ID \<Rightarrow> string" where
  "Type ident =
     (let splitted = Split ident (CHR '':'') in
      if length splitted = 0 then ''''
      else (let possible = splitted ! 0 in
            if typeNames_index possible then possible else ''''))"

text \<open>The spec's words for \<open>Type\<close>: the part of the identifier before its first colon
  (all of it when it has none), and the nine names.\<close>

definition before_first_colon :: "ID \<Rightarrow> string" where
  "before_first_colon ident = takeWhile (\<lambda>c. c \<noteq> CHR '':'') ident"

definition known_type_names :: "string list" where
  "known_type_names =
     [''network'', ''line'', ''route'', ''stop_area'', ''commercial_mode'',
      ''physical_mode'', ''company'', ''admin'', ''stop_point'']"

section \<open>Places\<close>

text \<open>
  A \<open>float64\<close> is its IEEE 754 bit pattern, \<open>uint\<close> and \<open>int\<close> are taken at 64 bits;
  no arithmetic on any of them occurs in the code modelled here. The type
  \<open>Coordinates\<close> is declared outside the sources at hand; its two fields are the ones
  that \<open>UnmarshalJSON\<close> assigns. \<open>Equipment\<close> is declared outside them as well and
  nothing here looks into it.
\<close>

type_synonym float64 = "64 word"
type_synonym uint = "64 word"
type_synonym go_int = "64 word"

record Coordinates =
  Latitude :: float64
  Longitude :: float64

typedecl Equipment

text \<open>
  The structs of \<open>place.go\<close>. A pointer field is an \<open>option\<close> (\<open>None\<close> is nil), a slice
  is a list. \<open>StopArea\<close> and \<open>StopPoint\<close> refer to each other, so they are datatypes
  with one constructor; every selector carries the name of its struct.
\<close>

datatype AdministrativeRegion = AdministrativeRegion_struct
  (AdministrativeRegion_ID: ID)
  (AdministrativeRegion_Name: string)
  (AdministrativeRegion_Label: string)
  (AdministrativeRegion_Coord: Coordinates)
  (AdministrativeRegion_Level: go_int)
  (AdministrativeRegion_ZipCode: string)

datatype POIType = POIType_struct
  (POIType_ID: ID)
  (POIType_Name: string)

datatype POI = POI_struct
  (POI_ID: ID)
  (POI_Name: string)
  (POI_Label: string)
  (POI_Type: POIType)

datatype Address = Address_struct
  (Address_ID: ID)
  (Address_Name: string)
  (Address_Label: string)
  (Address_Coord: Coordinates)
  (Address_HouseNumber: uint)
  (Address_AdministrativeRegions: "AdministrativeRegion list")

datatype StopArea = StopArea_struct
  (StopArea_ID: ID)
  (StopArea_Name: string)
  (StopArea_Label: string)
  (StopArea_Coord: Coordinates)
  (StopArea_AdministrativeRegions: "AdministrativeRegion list")
  (StopArea_StopPoints: "StopPoint list")
and StopPoint = StopPoint_struct
  (StopPoint_ID: ID)
  (StopPoint_Name: string)
  (StopPoint_Coord: Coordinates)
  (StopPoint_AdministrativeRegions: "AdministrativeRegion list")
  (StopPoint_Equipments: "Equipment list")
  (StopPoint_StopArea: "StopArea option")

text \<open>The methods of the five structs, all with value receivers.\<close>

definition StopArea_PlaceID :: "StopArea \<Rightarrow> ID" where
  "StopArea_PlaceID sa = StopArea_ID sa"

definition StopArea_PlaceName :: "StopArea \<Rightarrow> string" where
  "StopArea_PlaceName sa = StopArea_Name sa"

definition StopArea_PlaceType :: "StopArea \<Rightarrow> string" where
  "StopArea_PlaceType sa = ''stop_area''"

definition POI_PlaceID :: "POI \<Rightarrow> ID" where
  "POI_PlaceID poi = POI_ID poi"

definition POI_PlaceName :: "POI \<Rightarrow> string" where
  "POI_PlaceName poi = POI_Name poi"

definition POI_PlaceType :: "POI \<Rightarrow> string" where
  "POI_PlaceType poi = ''poi''"

definition Address_PlaceID :: "Address \<Rightarrow> ID" where
  "Address_PlaceID add = Address_ID add"

definition Address_PlaceName :: "Address \<Rightarrow> string" where
  "Address_PlaceName add = Address_Name add"

definition Address_PlaceType :: "Address \<Rightarrow> string" where
  "Address_PlaceType add = ''address''"

definition StopPoint_PlaceID :: "StopPoint \<Rightarrow> ID" where
  "StopPoint_PlaceID sp = StopPoint_ID sp"

definition StopPoint_PlaceName :: "StopPoint \<Rightarrow> string" where
  "StopPoint_PlaceName sp = StopPoint_Name sp"

definition StopPoint_PlaceType :: "StopPoint \<Rightarrow> string" where
  "StopPoint_PlaceType sp = ''stop_point''"

definition AdministrativeRegion_PlaceID :: "AdministrativeRegion \<Rightarrow> ID" where
  "AdministrativeRegion_PlaceID ar = AdministrativeRegion_ID ar"

definition AdministrativeRegion_PlaceName :: "AdministrativeRegion \<Rightarrow> string" where
  "AdministrativeRegion_PlaceName ar = AdministrativeRegion_Name ar"

definition AdministrativeRegion_PlaceType :: "AdministrativeRegion \<Rightarrow> string" where
  "AdministrativeRegion_PlaceType ar = ''administrative_region''"

text \<open>
  A value of the interface \<open>Place\<close> is either the nil interface or a dynamic type with
  its value. \<open>PlaceCountainer.Place\<close> only ever converts the five pointer fields, so the
  dynamic types are the five pointer types. Converting a nil pointer gives an interface
  value that has a dynamic type and therefore is not the nil interface: \<open>StopArea_ptr None\<close>
  and \<open>nil_Place\<close> are different values, as in Go.
\<close>

datatype Place =
    nil_Place
  | StopArea_ptr "StopArea option"
  | POI_ptr "POI option"
  | Address_ptr "Address option"
  | StopPoint_ptr "StopPoint option"
  | AdministrativeRegion_ptr "AdministrativeRegion option"

text \<open>
  A method call through the interface. The methods have value receivers, so a call on a
  pointer reads through it, and panics when the pointer is nil; so does a call on the nil
  interface.
\<close>

datatype panic = nil_pointer_dereference

fun PlaceID :: "Place \<Rightarrow> panic + ID" where
  "PlaceID nil_Place = Inl nil_pointer_dereference"
| "PlaceID (StopArea_ptr p) =
     (case p of None \<Rightarrow> Inl nil_pointer_dereference | Some sa \<Rightarrow> Inr (StopArea_PlaceID sa))"
| "PlaceID (POI_ptr p) =
     (case p of None \<Rightarrow> Inl nil_pointer_dereference | Some poi \<Rightarrow> Inr (POI_PlaceID poi))"
| "PlaceID (Address_ptr p) =
     (case p of None \<Rightarrow> Inl nil_pointer_dereference | Some add \<Rightarrow> Inr (Address_PlaceID add))"
| "PlaceID (StopPoint_ptr p) =
     (case p of None \<Rightarrow> Inl nil_pointer_dereference | Some sp \<Rightarrow> Inr (StopPoint_PlaceID sp))"
| "PlaceID (AdministrativeRegion_ptr p) =
     (case p of None \<Rightarrow> Inl nil_pointer_dereference
      | Some ar \<Rightarrow> Inr (AdministrativeRegion_PlaceID ar))"

fun PlaceName :: "Place \<Rightarrow> panic + string" where
  "PlaceName nil_Place = Inl nil_pointer_dereference"
| "PlaceName (StopArea_ptr p) =
     (case p of None \<Rightarrow> Inl nil_pointer_dereference | Some sa \<Rightarrow> Inr (StopArea_PlaceName sa))"
| "PlaceName (POI_ptr p) =
     (case p of None \<Rightarrow> Inl nil_pointer_dereference | Some poi \<Rightarrow> Inr (POI_PlaceName poi))"
| "PlaceName (Address_ptr p) =
     (case p of None \<Rightarrow> Inl nil_pointer_dereference | Some add \<Rightarrow> Inr (Address_PlaceName add))"
| "PlaceName (StopPoint_ptr p) =
     (case p of None \<Rightarrow> Inl nil_pointer_dereference | Some sp \<Rightarrow> Inr (StopPoint_PlaceName sp))"
| "PlaceName (AdministrativeRegion_ptr p) =
     (case p of None \<Rightarrow> Inl nil_pointer_dereference
      | Some ar \<Rightarrow> Inr (AdministrativeRegion_PlaceName ar))"

fun PlaceType :: "Place \<Rightarrow> panic + string" where
  "PlaceType nil_Place = Inl nil_pointer_dereference"
| "PlaceType (StopArea_ptr p) =
     (case p of None \<Rightarrow> Inl nil_pointer_dereference | Some sa \<Rightarrow> Inr (StopArea_PlaceType sa))"
| "PlaceType (POI_ptr p) =
     (case p of None \<Rightarrow> Inl nil_pointer_dereference | Some poi \<Rightarrow> Inr (POI_PlaceType poi))"
| "PlaceType (Address_ptr p) =
     (case p of None \<Rightarrow> Inl nil_pointer_dereference | Some add \<Rightarrow> Inr (Address_PlaceType add))"
| "PlaceType (StopPoint_ptr p) =
     (case p of None \<Rightarrow> Inl nil_pointer_dereference | Some sp \<Rightarrow> Inr (StopPoint_PlaceType sp))"
| "PlaceType (AdministrativeRegion_ptr p) =
     (case p of None \<Rightarrow> Inl nil_pointer_dereference
      | Some ar \<Rightarrow> Inr (AdministrativeRegion_PlaceType ar))"

text \<open>The container, field by field.\<close>

record PlaceCountainer =
  ID :: ID
  Name :: string
  Quality :: uint
  EmbeddedType :: string
  StopArea :: "StopArea option"
  POI :: "POI option"
  Address :: "Address option"
  StopPoint :: "StopPoint option"
  AdministrativeRegion :: "AdministrativeRegion option"

text \<open>
  \<open>PlaceCountainer{}\<close>, every field at its zero value. The source compares the container
  with it by \<open>==\<close>, which compares field by field and pointers by address; against nil
  pointers that is the test whether each pointer is nil, which equality on \<open>option\<close>
  against \<open>None\<close> is too.
\<close>

definition empty :: PlaceCountainer where
  "empty = \<lparr>ID = '''', Name = '''', Quality = 0, EmbeddedType = '''',
     StopArea = None, POI = None, Address = None, StopPoint = None,
     AdministrativeRegion = None\<rparr>"

text \<open>\<open>PlaceCountainer.Place\<close>: the pair of its two results.\<close>

definition PlaceCountainer_Place :: "PlaceCountainer \<Rightarrow> Place \<times> error option" where
  "PlaceCountainer_Place pc =
     (if pc = empty then (nil_Place, None)
      else if EmbeddedType pc = ''stop_area'' then (StopArea_ptr (StopArea pc), None)
      else if EmbeddedType pc = ''poi'' then (POI_ptr (POI pc), None)
      else if EmbeddedType pc = ''address'' then (Address_ptr (Address pc), None)
      else if EmbeddedType pc = ''stop_point'' then (StopPoint_ptr (StopPoint pc), None)
      else if EmbeddedType pc = ''administrative_region''
        then (AdministrativeRegion_ptr (AdministrativeRegion pc), None)
      else (nil_Place,
            Some (Errorf (''No known embedded type indicated (we have \"'' @ EmbeddedType pc
                          @ ''\"), can't return a place !''))))"

text \<open>The spec's words: the five discriminants, and the pointer field that each names.\<close>

definition embedded_types :: "string list" where
  "embedded_types = [''stop_area'', ''poi'', ''address'', ''stop_point'',
     ''administrative_region'']"

definition variant_is_nil :: "PlaceCountainer \<Rightarrow> bool" where
  "variant_is_nil pc =
     (if EmbeddedType pc = ''stop_area'' then StopArea pc = None
      else if EmbeddedType pc = ''poi'' then POI pc = None
      else if EmbeddedType pc = ''address'' then Address pc = None
      else if EmbeddedType pc = ''stop_point'' then StopPoint pc = None
      else if EmbeddedType pc = ''administrative_region'' then AdministrativeRegion pc = None
      else False)"

text \<open>Containers and places to evaluate on.\<close>

definition origin :: Coordinates where
  "origin = \<lparr>Latitude = 0, Longitude = 0\<rparr>"

definition gare_de_lyon :: StopArea where
  "gare_de_lyon = StopArea_struct ''stop_area:OIF:SA:8768600'' ''Gare de Lyon''
     ''Gare de Lyon (Paris)'' origin [] []"

definition louvre :: POI where
  "louvre = POI_struct ''poi:osm:1'' ''Louvre'' ''Louvre (Paris)''
     (POIType_struct ''poi_type:museum'' ''Museum'')"

definition rue_de_lyon :: Address where
  "rue_de_lyon = Address_struct ''address:20'' ''Rue de Lyon'' ''20 Rue de Lyon (Paris)''
     origin 20 []"

definition quai :: StopPoint where
  "quai = StopPoint_struct ''stop_point:OIF:SP:1'' ''Quai 1'' origin [] []
     (Some gare_de_lyon)"

definition paris :: AdministrativeRegion where
  "paris = AdministrativeRegion_struct ''admin:fr:75056'' ''Paris'' ''Paris (75000-75116)''
     origin 8 ''75000''"

definition of_type :: "string \<Rightarrow> PlaceCountainer" where
  "of_type t = empty\<lparr>ID := ''x'', Name := ''y'', EmbeddedType := t\<rparr>"

section \<open>Decoding coordinates\<close>

text \<open>
  The anonymous struct that \<open>UnmarshalJSON\<close> decodes into, with the JSON keys \<open>lat\<close> and
  \<open>lon\<close>.
\<close>

record data =
  data_Latitude :: string
  data_Longitude :: string

text \<open>\<open>errors.Wrap\<close> keeps a nil error nil.\<close>

definition errors_Wrap :: "error option \<Rightarrow> string \<Rightarrow> error option" where
  "errors_Wrap err message = (case err of None \<Rightarrow> None | Some e \<Rightarrow> Some (Wrap e message))"

text \<open>
  Modelled from the spec: \<open>unmarshalErrorMaker\<close> is a struct of two fields, written
  \<open>unmarshalErrorMaker{"Coordinates", b}\<close> at its only use, and its method \<open>err\<close> is
  missing from the sources. Following the spec ("reporting a parse error with a named field
  context on failure") it returns an error, never nil, that holds what it was given.
\<close>

type_synonym unmarshalErrorMaker = "string \<times> string"

definition unmarshalErrorMaker_err ::
  "unmarshalErrorMaker \<Rightarrow> error \<Rightarrow> string \<Rightarrow> string \<Rightarrow> string \<Rightarrow> string \<Rightarrow> error option" where
  "unmarshalErrorMaker_err gen err field key val message =
     Some (UnmarshalError (fst gen) (snd gen) err field key val message)"

text \<open>
  \<open>Coordinates.UnmarshalJSON\<close>. The two library calls are parameters:
  \<^item> \<open>json_Unmarshal b d\<close> stands for \<open>json.Unmarshal(b, data)\<close> and returns the struct as
    the call leaves it, with the error;
  \<^item> \<open>ParseFloat s bitSize\<close> stands for \<open>strconv.ParseFloat\<close> and returns both of its
    results.
  The receiver is a pointer, so the model takes the \<open>Coordinates\<close> before the call and
  returns them as they are after it, with the error. Each assignment
  \<open>c.Longitude, err = strconv.ParseFloat(...)\<close> stores the first result of the call
  before \<open>err\<close> is looked at.
\<close>

definition UnmarshalJSON ::
  "(string \<Rightarrow> data \<Rightarrow> data \<times> error option) \<Rightarrow> (string \<Rightarrow> nat \<Rightarrow> float64 \<times> error option) \<Rightarrow>
   Coordinates \<Rightarrow> string \<Rightarrow> Coordinates \<times> error option" where
  "UnmarshalJSON json_Unmarshal ParseFloat c b =
     (let (d, err) = json_Unmarshal b \<lparr>data_Latitude = '''', data_Longitude = ''''\<rparr> in
      if err \<noteq> None then (c, errors_Wrap err ''Error while unmarshalling journey'')
      else
        (let gen = (''Coordinates'', b);
             (lon, err) = ParseFloat (data_Longitude d) 64;
             c = c\<lparr>Longitude := lon\<rparr> in
         case err of
           Some e \<Rightarrow>
             (c, unmarshalErrorMaker_err gen e ''Longitude'' ''lon'' (data_Longitude d)
                   ''error in strconv.ParseFloat'')
         | None \<Rightarrow>
             (let (lat, err) = ParseFloat (data_Latitude d) 64;
                  c = c\<lparr>Latitude := lat\<rparr> in
              case err of
                Some e \<Rightarrow>
                  (c, unmarshalErrorMaker_err gen e ''Latitude'' ''lat'' (data_Latitude d)
                        ''error in strconv.ParseFloat'')
              | None \<Rightarrow> (c, None))))"

text \<open>
  What \<open>json.Unmarshal(b, data)\<close> does for this struct, whose two string fields carry the
  tags \<open>json:"lat"\<close> and \<open>json:"lon"\<close>. Reading the bytes is a parameter: \<open>json_parse b\<close>
  is the syntax error when \<open>b\<close> is not valid JSON, and else the value that \<open>b\<close> spells,
  with strings and member names unquoted and the members of an object in the order of the
  input. The decoder then walks the value as \<open>encoding/json\<close> does:
  \<^item> \<open>null\<close> at the top leaves the struct as it is, an object is read member by member,
    and any other value is a type error;
  \<^item> a member belongs to the field whose tag equals its name, or else equals it up to the
    case of letters (for these two tags, which hold neither \<open>k\<close> nor \<open>s\<close>, that is the
    case of ASCII letters); a member of any other name is skipped;
  \<^item> a string is stored in the field, \<open>null\<close> leaves the field, any other value is a
    type error; a later member of the same field overwrites an earlier one;
  \<^item> the first type error is kept while the walk goes on, and returned at the end.
\<close>

datatype json =
    JNull
  | JBool bool
  | JNumber string
  | JString string
  | JArray "json list"
  | JObject "(string \<times> json) list"

fun json_Value :: "json \<Rightarrow> string" where
  "json_Value JNull = ''null''"
| "json_Value (JBool b) = ''bool''"
| "json_Value (JNumber n) = ''number''"
| "json_Value (JString s) = ''string''"
| "json_Value (JArray vs) = ''array''"
| "json_Value (JObject ms) = ''object''"

definition fold_byte :: "char \<Rightarrow> char" where
  "fold_byte c =
     (if (97::nat) \<le> of_char c \<and> of_char c \<le> (122::nat)
      then char_of (of_char c - (32::nat)) else c)"

definition foldName :: "string \<Rightarrow> string" where
  "foldName name = map fold_byte name"

definition field_matches :: "string \<Rightarrow> string \<Rightarrow> bool" where
  "field_matches tag key = (key = tag \<or> foldName key = foldName tag)"

definition store_string :: "json \<Rightarrow> string \<Rightarrow> string \<times> error option" where
  "store_string v field =
     (case v of
        JString s \<Rightarrow> (s, None)
      | JNull \<Rightarrow> (field, None)
      | _ \<Rightarrow> (field, Some (json_UnmarshalTypeError (json_Value v))))"

definition saveError :: "error option \<Rightarrow> error option \<Rightarrow> error option" where
  "saveError saved err = (case saved of None \<Rightarrow> err | Some e \<Rightarrow> Some e)"

fun object_into_data :: "(string \<times> json) list \<Rightarrow> data \<Rightarrow> error option \<Rightarrow> data \<times> error option" where
  "object_into_data [] d saved = (d, saved)"
| "object_into_data ((key, v) # members) d saved =
     (if field_matches ''lat'' key then
        (let (s, err) = store_string v (data_Latitude d) in
         object_into_data members (d\<lparr>data_Latitude := s\<rparr>) (saveError saved err))
      else if field_matches ''lon'' key then
        (let (s, err) = store_string v (data_Longitude d) in
         object_into_data members (d\<lparr>data_Longitude := s\<rparr>) (saveError saved err))
      else object_into_data members d saved)"

definition json_Unmarshal_data ::
  "(string \<Rightarrow> error + json) \<Rightarrow> string \<Rightarrow> data \<Rightarrow> data \<times> error option" where
  "json_Unmarshal_data json_parse b d =
     (case json_parse b of
        Inl e \<Rightarrow> (d, Some e)
      | Inr v \<Rightarrow>
          (case v of
             JObject members \<Rightarrow> object_into_data members d None
           | JNull \<Rightarrow> (d, None)
           | _ \<Rightarrow> (d, Some (json_UnmarshalTypeError (json_Value v)))))"

text \<open>
  An excerpt of the two library functions, for evaluation. \<open>sample_json_Unmarshal\<close>
  decodes three documents as \<open>encoding/json\<close> does, and \<open>sample_ParseFloat\<close> gives what
  \<open>strconv.ParseFloat\<close> gives on five texts: the nearest \<open>float64\<close> (as its bit pattern)
  and no error for \<open>48.5\<close>, \<open>2.25\<close> and \<open>1\<close>; zero with a syntax error for \<open>abc\<close>;
  positive infinity with a range error for \<open>1e400\<close>. Outside these rows the excerpt
  answers with an error and is not meant.
\<close>

definition doc_paris :: string where
  "doc_paris = ''{\"lat\":\"48.5\",\"lon\":\"2.25\"}''"

definition doc_bad_lat :: string where
  "doc_bad_lat = ''{\"lat\":\"abc\",\"lon\":\"2.25\"}''"

definition doc_huge_lon :: string where
  "doc_huge_lon = ''{\"lat\":\"48.5\",\"lon\":\"1e400\"}''"

definition sample_json_Unmarshal :: "string \<Rightarrow> data \<Rightarrow> data \<times> error option" where
  "sample_json_Unmarshal b d =
     (if b = doc_paris then (d\<lparr>data_Latitude := ''48.5'', data_Longitude := ''2.25''\<rparr>, None)
      else if b = doc_bad_lat
        then (d\<lparr>data_Latitude := ''abc'', data_Longitude := ''2.25''\<rparr>, None)
      else if b = doc_huge_lon
        then (d\<lparr>data_Latitude := ''48.5'', data_Longitude := ''1e400''\<rparr>, None)
      else (d, Some (Foreign ''unexpected end of JSON input'')))"

text \<open>The values that the three documents spell, for \<open>json_parse\<close>.\<close>

definition sample_json_parse :: "string \<Rightarrow> error + json" where
  "sample_json_parse b =
     (if b = doc_paris
        then Inr (JObject [(''lat'', JString ''48.5''), (''lon'', JString ''2.25'')])
      else if b = doc_bad_lat
        then Inr (JObject [(''lat'', JString ''abc''), (''lon'', JString ''2.25'')])
      else if b = doc_huge_lon
        then Inr (JObject [(''lat'', JString ''48.5''), (''lon'', JString ''1e400'')])
      else Inl (Foreign ''unexpected end of JSON input''))"

definition sample_ParseFloat :: "string \<Rightarrow> nat \<Rightarrow> float64 \<times> error option" where
  "sample_ParseFloat s bitSize =
     (if s = ''48.5'' then (0x4048400000000000, None)
      else if s = ''2.25'' then (0x4002000000000000, None)
      else if s = ''1'' then (0x3FF0000000000000, None)
      else if s = ''1e400''
        then (0x7FF0000000000000,
              Some (Foreign ''strconv.ParseFloat: parsing \"1e400\": value out of range''))
      else (0, Some (Foreign (''strconv.ParseFloat: parsing \"'' @ s @ ''\": invalid syntax''))))"

definition unit_coordinates :: Coordinates where
  "unit_coordinates = \<lparr>Latitude = 0x3FF0000000000000, Longitude = 0x3FF0000000000000\<rparr>"

section \<open>Properties of identifiers\<close>

lemma Split_not_empty: "Split s sep \<noteq> []"
  by (induction s) (auto split: list.splits)

lemma hd_Split: "hd (Split s sep) = takeWhile (\<lambda>c. c \<noteq> sep) s"
proof (induction s)
  case Nil
  show ?case by simp
next
  case (Cons c cs)
  show ?case
  proof (cases "Split cs sep")
    case Nil
    with Split_not_empty show ?thesis by blast
  next
    case (Cons w ws)
    with Cons.IH show ?thesis by auto
  qed
qed

lemma Split_first: "Split s sep ! 0 = takeWhile (\<lambda>c. c \<noteq> sep) s"
  using hd_Split [of s sep] Split_not_empty [of s sep] by (simp add: hd_conv_nth)

lemma typeNames_index_known: "typeNames_index k = (k \<in> set known_type_names)"
  by (simp add: typeNames_index_def typeNames_def known_type_names_def)

text \<open>
  C4. For every identifier, \<open>Type\<close> returns the part of the identifier before its first
  colon exactly when that part is one of the nine known type names, and the empty string
  for every other identifier. An identifier without a colon is its own first part.
\<close>

theorem Type_known_prefix:
  "Type ident = (if before_first_colon ident \<in> set known_type_names
              then before_first_colon ident else '''')"
  by (simp add: Type_def Let_def Split_not_empty Split_first typeNames_index_known
      before_first_colon_def)

theorem Type_known_prefix_witness:
  "Type ''stop_area:OIF:SA:8768600'' = ''stop_area'' \<and>
   Type ''network'' = ''network'' \<and>
   Type ''OIF:stop_area'' = '''' \<and>
   Type '':line'' = '''' \<and>
   Type '''' = ''''"
  using Type_known_prefix [of "''stop_area:OIF:SA:8768600''"]
    Type_known_prefix [of "''network''"]
    Type_known_prefix [of "''OIF:stop_area''"]
    Type_known_prefix [of "'':line''"]
    Type_known_prefix [of "''''"]
  by (simp add: before_first_colon_def known_type_names_def)

text \<open>
  C5. \<open>Check\<close> returns an error for the empty identifier and nil for every identifier
  that is not empty.
\<close>

theorem Check_empty_only:
  "Check '''' \<noteq> None \<and> (\<forall>ident. ident \<noteq> '''' \<longrightarrow> Check ident = None)"
  by (simp add: Check_def)

theorem Check_empty_only_witness:
  "Check '''' \<noteq> None \<and> ''stop_area:OIF:SA:8768600'' \<noteq> '''' \<and>
   Check ''stop_area:OIF:SA:8768600'' = None"
  using Check_empty_only by simp

section \<open>Properties of the container\<close>

lemma of_type_not_empty: "of_type t \<noteq> empty"
  by (simp add: of_type_def empty_def)

lemma populated_not_empty:
  "StopArea pc \<noteq> None \<or> POI pc \<noteq> None \<or> Address pc \<noteq> None \<or> StopPoint pc \<noteq> None
   \<or> AdministrativeRegion pc \<noteq> None \<or> EmbeddedType pc \<noteq> '''' \<Longrightarrow> pc \<noteq> empty"
  by (auto simp: empty_def)

text \<open>
  C1. When \<open>EmbeddedType\<close> is one of the five discriminants and the pointer field that it
  names is not nil, \<open>Place\<close> returns that pointer as the \<open>Place\<close>, with the nil error;
  so for \<open>stop_area\<close> and a \<open>StopArea\<close> field that is set it returns that stop area.
\<close>

theorem Place_returns_populated_variant:
  "(EmbeddedType pc = ''stop_area'' \<and> StopArea pc = Some sa \<longrightarrow>
      PlaceCountainer_Place pc = (StopArea_ptr (Some sa), None)) \<and>
   (EmbeddedType pc = ''poi'' \<and> POI pc = Some poi \<longrightarrow>
      PlaceCountainer_Place pc = (POI_ptr (Some poi), None)) \<and>
   (EmbeddedType pc = ''address'' \<and> Address pc = Some add \<longrightarrow>
      PlaceCountainer_Place pc = (Address_ptr (Some add), None)) \<and>
   (EmbeddedType pc = ''stop_point'' \<and> StopPoint pc = Some sp \<longrightarrow>
      PlaceCountainer_Place pc = (StopPoint_ptr (Some sp), None)) \<and>
   (EmbeddedType pc = ''administrative_region'' \<and> AdministrativeRegion pc = Some ar \<longrightarrow>
      PlaceCountainer_Place pc = (AdministrativeRegion_ptr (Some ar), None))"
  using populated_not_empty [of pc] by (simp add: PlaceCountainer_Place_def)

theorem Place_returns_populated_variant_witness:
  "PlaceCountainer_Place (of_type ''stop_area'' \<lparr>StopArea := Some gare_de_lyon\<rparr>)
     = (StopArea_ptr (Some gare_de_lyon), None) \<and>
   PlaceCountainer_Place (of_type ''poi'' \<lparr>POI := Some louvre\<rparr>)
     = (POI_ptr (Some louvre), None) \<and>
   PlaceCountainer_Place (of_type ''address'' \<lparr>Address := Some rue_de_lyon\<rparr>)
     = (Address_ptr (Some rue_de_lyon), None) \<and>
   PlaceCountainer_Place (of_type ''stop_point'' \<lparr>StopPoint := Some quai\<rparr>)
     = (StopPoint_ptr (Some quai), None) \<and>
   PlaceCountainer_Place (of_type ''administrative_region'' \<lparr>AdministrativeRegion := Some paris\<rparr>)
     = (AdministrativeRegion_ptr (Some paris), None)"
  using
    Place_returns_populated_variant [of "of_type ''stop_area'' \<lparr>StopArea := Some gare_de_lyon\<rparr>"
      gare_de_lyon]
    Place_returns_populated_variant [of "of_type ''poi'' \<lparr>POI := Some louvre\<rparr>" _ louvre]
    Place_returns_populated_variant [of "of_type ''address'' \<lparr>Address := Some rue_de_lyon\<rparr>"
      _ _ rue_de_lyon]
    Place_returns_populated_variant [of "of_type ''stop_point'' \<lparr>StopPoint := Some quai\<rparr>"
      _ _ _ quai]
    Place_returns_populated_variant
      [of "of_type ''administrative_region'' \<lparr>AdministrativeRegion := Some paris\<rparr>" _ _ _ _ paris]
  by (simp add: of_type_def)

text \<open>
  C3. \<open>Place\<close> on the zero-valued container returns the nil \<open>Place\<close> and the nil
  error.
\<close>

theorem Place_of_empty: "PlaceCountainer_Place empty = (nil_Place, None)"
  by (simp add: PlaceCountainer_Place_def)

text \<open>
  C2. A container that differs from the zero value and whose \<open>EmbeddedType\<close> is none of
  the five discriminants gets the nil \<open>Place\<close> and an error.
\<close>

theorem Place_unknown_type_error:
  "pc \<noteq> empty \<Longrightarrow> EmbeddedType pc \<notin> set embedded_types \<Longrightarrow>
   fst (PlaceCountainer_Place pc) = nil_Place \<and> snd (PlaceCountainer_Place pc) \<noteq> None"
  by (simp add: PlaceCountainer_Place_def embedded_types_def)

theorem Place_unknown_type_error_witness:
  "of_type ''stop'' \<noteq> empty \<and> EmbeddedType (of_type ''stop'') \<notin> set embedded_types \<and>
   fst (PlaceCountainer_Place (of_type ''stop'')) = nil_Place \<and>
   snd (PlaceCountainer_Place (of_type ''stop'')) \<noteq> None"
proof -
  have ne: "of_type ''stop'' \<noteq> empty" by (rule of_type_not_empty)
  have un: "EmbeddedType (of_type ''stop'') \<notin> set embedded_types"
    by (simp add: of_type_def embedded_types_def)
  from Place_unknown_type_error [OF ne un] ne un show ?thesis by simp
qed

text \<open>
  C8. For a container that is not the zero value, whose \<open>EmbeddedType\<close> is one of the five
  discriminants and whose pointer field of that name is nil, \<open>Place\<close> is to return the nil
  \<open>Place\<close>; the comment on \<open>Place\<close> promises a nil \<open>Place\<close> whenever a container that
  is not empty indicates no place. The code does otherwise. For the container with
  \<open>ID = "x"\<close>, \<open>Name = "y"\<close>, \<open>EmbeddedType = "stop_area"\<close> and no stop area it returns
  the nil pointer of type \<open>*StopArea\<close> held in an interface value, with the nil error.
  That value is not the nil \<open>Place\<close>, a comparison with nil answers false, and each of
  its three methods panics.
\<close>

theorem Place_nil_variant_typed_nil:
  "of_type ''stop_area'' \<noteq> empty \<and>
   EmbeddedType (of_type ''stop_area'') \<in> set embedded_types \<and>
   StopArea (of_type ''stop_area'') = None \<and>
   PlaceCountainer_Place (of_type ''stop_area'') = (StopArea_ptr None, None) \<and>
   StopArea_ptr None \<noteq> nil_Place \<and>
   PlaceID (StopArea_ptr None) = Inl nil_pointer_dereference \<and>
   PlaceName (StopArea_ptr None) = Inl nil_pointer_dereference \<and>
   PlaceType (StopArea_ptr None) = Inl nil_pointer_dereference"
  by (simp add: of_type_not_empty PlaceCountainer_Place_def)
     (simp add: of_type_def embedded_types_def empty_def)

text \<open>
  C10. For a container that differs from the zero value, whose \<open>EmbeddedType\<close> is one of
  the five discriminants and whose pointer field of that name is set, \<open>PlaceType\<close> called
  on the \<open>Place\<close> that \<open>Place\<close> returns gives the container's \<open>EmbeddedType\<close>. The
  \<open>PlaceType\<close> of each of the five structs is its constant, whatever the value.
\<close>

theorem Place_type_matches:
  "(pc \<noteq> empty \<longrightarrow> EmbeddedType pc \<in> set embedded_types \<longrightarrow> \<not> variant_is_nil pc \<longrightarrow>
      PlaceType (fst (PlaceCountainer_Place pc)) = Inr (EmbeddedType pc)) \<and>
   StopArea_PlaceType sa = ''stop_area'' \<and>
   POI_PlaceType poi = ''poi'' \<and>
   Address_PlaceType add = ''address'' \<and>
   StopPoint_PlaceType sp = ''stop_point'' \<and>
   AdministrativeRegion_PlaceType ar = ''administrative_region''"
  by (auto simp: PlaceCountainer_Place_def embedded_types_def variant_is_nil_def
      StopArea_PlaceType_def POI_PlaceType_def Address_PlaceType_def StopPoint_PlaceType_def
      AdministrativeRegion_PlaceType_def)

theorem Place_type_matches_witness:
  "of_type ''stop_point'' \<lparr>StopPoint := Some quai\<rparr> \<noteq> empty \<and>
   EmbeddedType (of_type ''stop_point'' \<lparr>StopPoint := Some quai\<rparr>) \<in> set embedded_types \<and>
   \<not> variant_is_nil (of_type ''stop_point'' \<lparr>StopPoint := Some quai\<rparr>) \<and>
   PlaceType (fst (PlaceCountainer_Place (of_type ''stop_point'' \<lparr>StopPoint := Some quai\<rparr>)))
     = Inr ''stop_point''"
proof -
  let ?pc = "of_type ''stop_point'' \<lparr>StopPoint := Some quai\<rparr>"
  have ne: "?pc \<noteq> empty" by (simp add: of_type_def empty_def)
  have kn: "EmbeddedType ?pc \<in> set embedded_types"
    by (simp add: of_type_def embedded_types_def)
  have vn: "\<not> variant_is_nil ?pc"
    by (simp add: of_type_def variant_is_nil_def)
  have t: "EmbeddedType ?pc = ''stop_point''" by (simp add: of_type_def)
  from Place_type_matches [of ?pc] ne kn vn show ?thesis by (simp add: t)
qed

section \<open>Properties of the decoder\<close>

lemma sample_docs_distinct:
  "doc_bad_lat \<noteq> doc_paris" "doc_huge_lon \<noteq> doc_paris" "doc_huge_lon \<noteq> doc_bad_lat"
  by (simp_all add: doc_paris_def doc_bad_lat_def doc_huge_lon_def)

lemma sample_ParseFloat_rows:
  "sample_ParseFloat ''48.5'' 64 = (0x4048400000000000, None)"
  "sample_ParseFloat ''2.25'' 64 = (0x4002000000000000, None)"
  "sample_ParseFloat ''abc'' 64 =
     (0, Some (Foreign ''strconv.ParseFloat: parsing \"abc\": invalid syntax''))"
  "sample_ParseFloat ''1e400'' 64 =
     (0x7FF0000000000000,
      Some (Foreign ''strconv.ParseFloat: parsing \"1e400\": value out of range''))"
  by (simp_all add: sample_ParseFloat_def)

lemma sample_json_Unmarshal_rows:
  "sample_json_Unmarshal doc_paris \<lparr>data_Latitude = '''', data_Longitude = ''''\<rparr>
     = (\<lparr>data_Latitude = ''48.5'', data_Longitude = ''2.25''\<rparr>, None)"
  "sample_json_Unmarshal doc_bad_lat \<lparr>data_Latitude = '''', data_Longitude = ''''\<rparr>
     = (\<lparr>data_Latitude = ''abc'', data_Longitude = ''2.25''\<rparr>, None)"
  "sample_json_Unmarshal doc_huge_lon \<lparr>data_Latitude = '''', data_Longitude = ''''\<rparr>
     = (\<lparr>data_Latitude = ''48.5'', data_Longitude = ''1e400''\<rparr>, None)"
  by (simp_all add: sample_json_Unmarshal_def sample_docs_distinct)

lemma foldName_tags: "foldName ''lat'' = ''LAT''" "foldName ''lon'' = ''LON''"
  by code_simp+

lemma field_matches_fold: "field_matches tag key = (foldName key = foldName tag)"
  by (auto simp: field_matches_def)

lemma saveError_None: "saveError saved None = saved"
  by (simp add: saveError_def split: option.splits)




lemma sample_json_parse_rows:
  "sample_json_parse doc_paris
     = Inr (JObject [(''lat'', JString ''48.5''), (''lon'', JString ''2.25'')])"
  "sample_json_parse doc_huge_lon
     = Inr (JObject [(''lat'', JString ''48.5''), (''lon'', JString ''1e400'')])"
  by (simp_all add: sample_json_parse_def sample_docs_distinct)

lemma sample_json_Unmarshal_data_rows:
  "json_Unmarshal_data sample_json_parse doc_paris \<lparr>data_Latitude = '''', data_Longitude = ''''\<rparr>
     = (\<lparr>data_Latitude = ''48.5'', data_Longitude = ''2.25''\<rparr>, None)"
  "json_Unmarshal_data sample_json_parse doc_huge_lon
     \<lparr>data_Latitude = '''', data_Longitude = ''''\<rparr>
     = (\<lparr>data_Latitude = ''48.5'', data_Longitude = ''1e400''\<rparr>, None)"
  by (simp_all add: json_Unmarshal_data_def sample_json_parse_rows field_matches_fold
      foldName_tags store_string_def saveError_None)

lemma sample_decoders_agree:
  "json_Unmarshal_data sample_json_parse doc_paris \<lparr>data_Latitude = '''', data_Longitude = ''''\<rparr>
     = sample_json_Unmarshal doc_paris \<lparr>data_Latitude = '''', data_Longitude = ''''\<rparr>"
  "json_Unmarshal_data sample_json_parse doc_huge_lon
     \<lparr>data_Latitude = '''', data_Longitude = ''''\<rparr>
     = sample_json_Unmarshal doc_huge_lon \<lparr>data_Latitude = '''', data_Longitude = ''''\<rparr>"
  by (simp_all add: sample_json_Unmarshal_data_rows sample_json_Unmarshal_rows)





text \<open>
  C9. \<open>UnmarshalJSON\<close> is not atomic: when the JSON decodes, the longitude string parses
  and the latitude string does not, it returns an error and the receiver's \<open>Longitude\<close>
  is the parsed longitude already.
\<close>

theorem UnmarshalJSON_not_atomic:
  assumes "json_Unmarshal b \<lparr>data_Latitude = '''', data_Longitude = ''''\<rparr> = (d, None)"
    and "ParseFloat (data_Longitude d) 64 = (lon, None)"
    and "ParseFloat (data_Latitude d) 64 = (lat, Some e)"
  shows "snd (UnmarshalJSON json_Unmarshal ParseFloat c b) \<noteq> None \<and>
         Longitude (fst (UnmarshalJSON json_Unmarshal ParseFloat c b)) = lon"
  using assms by (simp add: UnmarshalJSON_def unmarshalErrorMaker_err_def)

theorem UnmarshalJSON_not_atomic_witness:
  "snd (UnmarshalJSON sample_json_Unmarshal sample_ParseFloat unit_coordinates doc_bad_lat)
     \<noteq> None \<and>
   Longitude (fst (UnmarshalJSON sample_json_Unmarshal sample_ParseFloat unit_coordinates
                     doc_bad_lat)) = 0x4002000000000000 \<and>
   Longitude unit_coordinates = 0x3FF0000000000000"
  using UnmarshalJSON_not_atomic [where json_Unmarshal = sample_json_Unmarshal
      and ParseFloat = sample_ParseFloat and b = doc_bad_lat and c = unit_coordinates
      and d = "\<lparr>data_Latitude = ''abc'', data_Longitude = ''2.25''\<rparr>"
      and lon = "0x4002000000000000" and lat = 0
      and e = "Foreign ''strconv.ParseFloat: parsing \"abc\": invalid syntax''"]
  by (simp add: sample_json_Unmarshal_rows sample_ParseFloat_rows unit_coordinates_def)

end
